theory Spec2Isabelle
  imports Main "HOL-Library.Word"
begin

section \<open>Git status parser (internal/gitutils/status.go)\<close>

text \<open>
  A Go \<open>byte\<close> is an 8-bit value, as is an Isabelle \<open>char\<close>; the NUL terminator of a
  record of \<open>git status -z\<close> is \<open>CHR 0x00\<close>. A Go \<open>int\<close> is a 64-bit machine integer
  on the 64-bit targets: \<open>++\<close> wraps around.
\<close>

type_synonym byte = char
type_synonym go_int = "64 word"

record GitFileStats =
  Added :: go_int
  Modified :: go_int
  Deleted :: go_int

record GitStats =
  Index :: GitFileStats
  Files :: GitFileStats
  Unmerged :: go_int

text \<open>
  \<open>statusWriter.stats\<close> is a pointer to the \<open>GitStats\<close> that \<open>Stats\<close> returns; nothing
  else writes through it while the writer runs, so the writer carries the value.
\<close>

record statusWriter =
  linePos :: go_int
  stats :: GitStats

datatype panic = IndexOutOfRange

definition countStats :: "GitFileStats \<Rightarrow> byte \<Rightarrow> GitFileStats" where
  "countStats st x =
     (if x = CHR ''M'' then st\<lparr>Modified := Modified st + 1\<rparr>
      else if x = CHR ''A'' then st\<lparr>Added := Added st + 1\<rparr>
      else if x = CHR ''D'' then st\<lparr>Deleted := Deleted st + 1\<rparr>
      else if x = CHR ''R'' then st\<lparr>Modified := Modified st + 1\<rparr>
      else if x = CHR ''C'' then st\<lparr>Modified := Modified st + 1\<rparr>
      else st)"

text \<open>\<open>p[i]\<close>: Go panics when the index is out of range.\<close>

definition index :: "byte list \<Rightarrow> nat \<Rightarrow> panic + byte" where
  "index p i = (if i < length p then Inr (p ! i) else Inl IndexOutOfRange)"

text \<open>The classification of lines 70 to 77 of \<open>Write\<close>, on the two status letters.\<close>

definition classify :: "byte \<Rightarrow> byte \<Rightarrow> GitStats \<Rightarrow> GitStats" where
  "classify x y s =
     (if (x = CHR ''D'' \<and> y = CHR ''D'') \<or> (x = CHR ''A'' \<and> y = CHR ''A'')
         \<or> x = CHR ''U'' \<or> y = CHR ''U''
      then s\<lparr>Unmerged := Unmerged s + 1\<rparr>
      else if x = CHR ''?''
      then s\<lparr>Files := (Files s)\<lparr>Added := Added (Files s) + 1\<rparr>\<rparr>
      else s\<lparr>Index := countStats (Index s) x, Files := countStats (Files s) y\<rparr>)"

text \<open>
  One iteration of the loop of \<open>Write\<close> at index \<open>i\<close>. The local variable \<open>x\<close> is
  threaded with the writer: it is declared in \<open>Write\<close>, not in \<open>statusWriter\<close>.
\<close>

definition Write_iter ::
  "byte list \<Rightarrow> nat \<Rightarrow> byte \<Rightarrow> statusWriter \<Rightarrow> panic + (byte \<times> statusWriter)" where
  "Write_iter p i x status =
     (if linePos status = 0 then
        (case index p i of
           Inl e \<Rightarrow> Inl e
         | Inr b \<Rightarrow> Inr (b, status\<lparr>linePos := linePos status + 1\<rparr>))
      else if linePos status = 1 then
        (case index p i of
           Inl e \<Rightarrow> Inl e
         | Inr y \<Rightarrow>
             Inr (x, status\<lparr>stats := classify x y (stats status),
                            linePos := linePos status + 1\<rparr>))
      else
        (case index p i of
           Inl e \<Rightarrow> Inl e
         | Inr b \<Rightarrow>
             if b = CHR 0x00 then Inr (x, status\<lparr>linePos := 0\<rparr>)
             else Inr (x, status\<lparr>linePos := linePos status + 1\<rparr>)))"

function Write_loop ::
  "byte list \<Rightarrow> nat \<Rightarrow> byte \<Rightarrow> statusWriter \<Rightarrow> panic + statusWriter" where
  "Write_loop p i x status =
     (if i < length p then
        (case Write_iter p i x status of
           Inl e \<Rightarrow> Inl e
         | Inr (x', status') \<Rightarrow> Write_loop p (i + 1) x' status')
      else Inr status)"
  by pat_completeness auto
termination
  by (relation "measure (\<lambda>(p, i, x, status). length p - i)") auto

declare Write_loop.simps [simp del]

text \<open>
  \<open>Write\<close> returns \<open>(n, err)\<close>: \<open>n\<close> is \<open>len(p)\<close>, an \<open>error\<close> is its message and
  \<open>nil\<close> is \<open>None\<close>. \<open>var x byte\<close> starts every call at the zero byte.
\<close>

definition Write ::
  "statusWriter \<Rightarrow> byte list \<Rightarrow> panic + (nat \<times> string option \<times> statusWriter)" where
  "Write status p =
     (case Write_loop p 0 (CHR 0x00) status of
        Inl e \<Rightarrow> Inl e
      | Inr status' \<Rightarrow> Inr (length p, None, status'))"

text \<open>
  The writer that \<open>Stats\<close> hands to the command, and the successive \<open>Write\<close> calls by
  which the command's output reaches it, one per chunk.
\<close>

definition zeroFileStats :: GitFileStats where
  "zeroFileStats = \<lparr>Added = 0, Modified = 0, Deleted = 0\<rparr>"

definition zeroStats :: GitStats where
  "zeroStats = \<lparr>Index = zeroFileStats, Files = zeroFileStats, Unmerged = 0\<rparr>"

definition newStatusWriter :: statusWriter where
  "newStatusWriter = \<lparr>linePos = 0, stats = zeroStats\<rparr>"

fun Write_chunks :: "statusWriter \<Rightarrow> byte list list \<Rightarrow> panic + statusWriter" where
  "Write_chunks status [] = Inr status"
| "Write_chunks status (c # cs) =
     (case Write status c of
        Inl e \<Rightarrow> Inl e
      | Inr (n, err, status') \<Rightarrow> Write_chunks status' cs)"

text \<open>
  The wire format: a record is two status letters, then the rest up to the NUL
  terminator (a space and the path).
\<close>

type_synonym status_record = "byte \<times> byte \<times> byte list"

definition encode_record :: "status_record \<Rightarrow> byte list" where
  "encode_record r = (case r of (x, y, rest) \<Rightarrow> x # y # rest @ [CHR 0x00])"

definition encode_records :: "status_record list \<Rightarrow> byte list" where
  "encode_records rs = concat (map encode_record rs)"

definition wf_record :: "status_record \<Rightarrow> bool" where
  "wf_record r = (case r of (x, y, rest) \<Rightarrow> CHR 0x00 \<notin> set rest \<and> length rest + 2 < 2 ^ 64)"

definition count_record :: "status_record \<Rightarrow> GitStats \<Rightarrow> GitStats" where
  "count_record r s = (case r of (x, y, rest) \<Rightarrow> classify x y s)"

definition fileTotal :: "GitFileStats \<Rightarrow> go_int" where
  "fileTotal f = Added f + Modified f + Deleted f"

definition total :: "GitStats \<Rightarrow> go_int" where
  "total s = fileTotal (Index s) + fileTotal (Files s) + Unmerged s"

text \<open>
  The body of the loop of \<open>Write\<close> as a function of the byte read at \<open>p[i]\<close>, for the
  proofs: \<open>Write_iter\<close> is this function wherever the index is in range.
\<close>

definition Write_step :: "byte \<Rightarrow> byte \<times> statusWriter \<Rightarrow> byte \<times> statusWriter" where
  "Write_step b xs =
     (case xs of (x, status) \<Rightarrow>
        if linePos status = 0 then (b, status\<lparr>linePos := linePos status + 1\<rparr>)
        else if linePos status = 1
        then (x, status\<lparr>stats := classify x b (stats status), linePos := linePos status + 1\<rparr>)
        else if b = CHR 0x00 then (x, status\<lparr>linePos := 0\<rparr>)
        else (x, status\<lparr>linePos := linePos status + 1\<rparr>))"

text \<open>How many counters a status letter, and a record, increment.\<close>

definition letter_weight :: "byte \<Rightarrow> nat" where
  "letter_weight c =
     (if c = CHR ''M'' \<or> c = CHR ''A'' \<or> c = CHR ''D'' \<or> c = CHR ''R'' \<or> c = CHR ''C''
      then 1 else 0)"

definition record_weight :: "status_record \<Rightarrow> nat" where
  "record_weight r =
     (case r of (x, y, rest) \<Rightarrow>
        if (x = CHR ''D'' \<and> y = CHR ''D'') \<or> (x = CHR ''A'' \<and> y = CHR ''A'')
           \<or> x = CHR ''U'' \<or> y = CHR ''U'' then 1
        else if x = CHR ''?'' then 1
        else letter_weight x + letter_weight y)"

text \<open>
  The classification rule in the words of the specification: \<open>M\<close> to Modified, \<open>A\<close> to
  Added, \<open>D\<close> to Deleted, \<open>R\<close> and \<open>C\<close> to Modified.
\<close>

definition spec_count_letter :: "byte \<Rightarrow> GitFileStats \<Rightarrow> GitFileStats" where
  "spec_count_letter c f =
     (if c = CHR ''M'' \<or> c = CHR ''R'' \<or> c = CHR ''C'' then f\<lparr>Modified := Modified f + 1\<rparr>
      else if c = CHR ''A'' then f\<lparr>Added := Added f + 1\<rparr>
      else if c = CHR ''D'' then f\<lparr>Deleted := Deleted f + 1\<rparr>
      else f)"

definition spec_classify :: "byte \<Rightarrow> byte \<Rightarrow> GitStats \<Rightarrow> GitStats" where
  "spec_classify x y s =
     (if (x = CHR ''D'' \<and> y = CHR ''D'') \<or> (x = CHR ''A'' \<and> y = CHR ''A'')
         \<or> x = CHR ''U'' \<or> y = CHR ''U''
      then s\<lparr>Unmerged := Unmerged s + 1\<rparr>
      else if x = CHR ''?''
      then s\<lparr>Files := (Files s)\<lparr>Added := Added (Files s) + 1\<rparr>\<rparr>
      else s\<lparr>Index := spec_count_letter x (Index s), Files := spec_count_letter y (Files s)\<rparr>)"

text \<open>
  Two loop states agree when the writers are equal and, where the second letter is
  awaited, the first letters are: elsewhere the local \<open>x\<close> is dead.
\<close>

definition carried :: "byte \<times> statusWriter \<Rightarrow> byte \<times> statusWriter \<Rightarrow> bool" where
  "carried a b = (snd a = snd b \<and> (linePos (snd a) = 1 \<longrightarrow> fst a = fst b))"

section \<open>Module execution (package modules)\<close>

text \<open>
  Modelled from the spec: \<open>styling.CharacterColors\<close> (package styling is not among the
  sources): a foreground/background colour pair, possibly unset. The zero value, which
  \<open>var startStyle styling.CharacterColors\<close> declares, is the unset pair.
\<close>

record CharacterColors =
  FG :: string
  BG :: string

definition unsetColors :: CharacterColors where
  "unsetColors = \<lparr>FG = [], BG = []\<rparr>"

text \<open>
  A \<open>*styling.Style\<close> is read through one method, \<open>ApplyGetColors\<close>, and stands for it here:
  the decorated text and the colours of its first and last character. The registry
  \<open>styling.Registry\<close> is read through \<open>Get\<close>, which returns a style pointer (\<open>nil\<close> is
  \<open>None\<close>) and an error (its message; \<open>nil\<close> is \<open>None\<close>).
\<close>

type_synonym Style = "string \<Rightarrow> string \<times> CharacterColors \<times> CharacterColors"
type_synonym Registry = "string \<Rightarrow> Style option \<times> string option"

record Globals =
  CWD :: string
  Home :: string
  Username :: string
  UserFullName :: string
  Hostname :: string
  Status :: go_int
  PreviousCommandDuration :: "64 word"
  Keymap :: string
  IsRoot :: bool

text \<open>
  The interface \<open>env.Env\<close>, as far as the modules here call it: the two lookups are
  fields, and \<open>Warn\<close> is an effect, recorded in the outcome of a module.
\<close>

record Env =
  Getenv :: "string \<Rightarrow> string"
  HasSomeEnv :: "string list \<Rightarrow> bool"

record Context =
  Environment :: Env
  Styles :: Registry
  Globals :: Globals

record CommonConfig =
  Style :: string
  Template :: string

record 'd TemplateData =
  Text :: string
  Data :: 'd
  Global :: Globals

record 'd ModuleResult =
  Text :: string
  Data :: 'd
  StartStyle :: CharacterColors
  EndStyle :: CharacterColors

text \<open>
  Package modtemplate is not among the sources: \<open>executeModule\<close> takes its two functions
  as a parameter. \<open>CompileTemplate\<close> returns the compiled template or an error (the
  template is read only where the error is \<open>nil\<close>); \<open>TemplateToString\<close> returns a
  string and an error.
\<close>

record ('t, 'd) modtemplate =
  CompileTemplate :: "Registry \<Rightarrow> string \<Rightarrow> string \<Rightarrow> string + 't"
  TemplateToString :: "'t \<Rightarrow> 'd TemplateData \<Rightarrow> string \<times> string option"

text \<open>
  What executing a module does: the \<open>ModuleResult\<close> it returns, the messages passed to
  \<open>Environment.Warn\<close>, the strings written to standard output by \<open>fmt.Printf\<close>, and the
  messages passed to \<open>log.Info\<close>, each in order.
\<close>

record 'd Outcome =
  result :: "'d ModuleResult"
  warned :: "string list"
  printed :: "string list"
  logged :: "string list"

text \<open>Lines 303 to 307 of \<open>executeModule\<close>: the style and the warnings.\<close>

definition resolveStyle :: "Context \<Rightarrow> string \<Rightarrow> Style option \<times> string list" where
  "resolveStyle context styleStr =
     (case Styles context styleStr of
        (style, Some err) \<Rightarrow> (None, [err])
      | (style, None) \<Rightarrow> (style, []))"

text \<open>
  Lines 309 to 330: the text, the warnings and what is printed.
  \<open>fmt.Sprintf("Error executing template:\n%s\n%v", config.Template, err)\<close> and
  \<open>fmt.Printf("Error compiling template: %v", err)\<close> format an error as its message.
\<close>

definition renderTemplate ::
  "('t, 'd) modtemplate \<Rightarrow> Context \<Rightarrow> CommonConfig \<Rightarrow> 'd \<Rightarrow> string
     \<Rightarrow> string \<times> string list \<times> string list" where
  "renderTemplate mt context config data defaultText =
     (if Template config \<noteq> [] then
        (case CompileTemplate mt (Styles context) ''module-template'' (Template config) of
           Inl err \<Rightarrow> (defaultText, [], [''Error compiling template: '' @ err])
         | Inr tmpl \<Rightarrow>
             (case TemplateToString mt tmpl
                     \<lparr>TemplateData.Text = defaultText, TemplateData.Data = data,
                        Global = Globals context\<rparr> of
                (text, Some err) \<Rightarrow>
                  (defaultText,
                   [''Error executing template:'' @ [CHR 0x0A] @ Template config
                      @ [CHR 0x0A] @ err],
                   [])
              | (text, None) \<Rightarrow> (text, [], [])))
      else (defaultText, [], []))"

text \<open>Lines 311, 312 and 332 to 334: the style is applied to a text that is not empty.\<close>

definition applyStyle ::
  "Style option \<Rightarrow> string \<Rightarrow> string \<times> CharacterColors \<times> CharacterColors" where
  "applyStyle style text =
     (case style of
        Some st \<Rightarrow> if text \<noteq> [] then st text else (text, unsetColors, unsetColors)
      | None \<Rightarrow> (text, unsetColors, unsetColors))"

definition executeModule ::
  "('t, 'd) modtemplate \<Rightarrow> Context \<Rightarrow> CommonConfig \<Rightarrow> 'd \<Rightarrow> string \<Rightarrow> string
     \<Rightarrow> 'd Outcome" where
  "executeModule mt context config data styleStr defaultText =
     (case resolveStyle context styleStr of (style, warned1) \<Rightarrow>
      case renderTemplate mt context config data defaultText of (text, warned2, out) \<Rightarrow>
      case applyStyle style text of (text', startStyle, endStyle) \<Rightarrow>
        \<lparr>result = \<lparr>Text = text', Data = data, StartStyle = startStyle, EndStyle = endStyle\<rparr>,
           warned = warned1 @ warned2, printed = out, logged = []\<rparr>)"

subsection \<open>The username module (internal/kitsch/modules/username.go)\<close>

record UsernameModule =
  CommonConfig :: CommonConfig
  ShowAlways :: bool
  RootStyle :: string

record usernameModuleData =
  username :: string
  IsRoot :: bool
  IsSSH :: bool
  Show :: bool

text \<open>
  The method \<open>Username\<close>. \<open>user.Current()\<close> is the operating system's answer, taken as
  the parameter \<open>current\<close>: an error (its message) or the user's \<open>Username\<close>. The result
  is the name and the messages passed to \<open>log.Info\<close>.
\<close>

definition usernameModuleData_Username ::
  "string + string \<Rightarrow> usernameModuleData \<Rightarrow> string \<times> string list" where
  "usernameModuleData_Username current data =
     (if username data \<noteq> [] then (username data, [])
      else (case current of
              Inl err \<Rightarrow> ([], [''Unable to get current user: '' @ err])
            | Inr name \<Rightarrow> (name, [])))"

text \<open>
  Lines 67 to 86 of \<open>Execute\<close>: the data, the style name and the default text handed to
  \<open>executeModule\<close>, and the messages logged on the way.
\<close>

definition Execute_inputs ::
  "string + string \<Rightarrow> UsernameModule \<Rightarrow> Context
     \<Rightarrow> usernameModuleData \<times> string \<times> string \<times> string list" where
  "Execute_inputs current module context =
     (let isRoot = Globals.IsRoot (Globals context);
          isSSH = HasSomeEnv (Environment context)
                    [''SSH_CLIENT'', ''SSH_CONNECTION'', ''SSH_TTY''];
          show = (isSSH \<or> isRoot \<or> ShowAlways module);
          data = \<lparr>username = Getenv (Environment context) ''USER'',
                    IsRoot = isRoot, IsSSH = isSSH, Show = show\<rparr>
      in if show then
           (case usernameModuleData_Username current data of (name, infos) \<Rightarrow>
              (data,
               if isRoot \<and> RootStyle module \<noteq> [] then RootStyle module
               else Style (CommonConfig module),
               name, infos))
         else (data, Style (CommonConfig module), [], []))"

definition Execute ::
  "('t, usernameModuleData) modtemplate \<Rightarrow> string + string \<Rightarrow> UsernameModule \<Rightarrow> Context
     \<Rightarrow> usernameModuleData Outcome" where
  "Execute mt current module context =
     (case Execute_inputs current module context of (data, style, defaultText, infos) \<Rightarrow>
        (executeModule mt context (CommonConfig module) data style defaultText)
          \<lparr>logged := infos\<rparr>)"

section \<open>Template renderer (package modtemplate)\<close>

text \<open>
  Modelled from the spec: the Template Renderer, package modtemplate, whose
  \<open>CompileTemplate\<close> and \<open>TemplateToString\<close> are not among the sources. It compiles a small
  per-module template string referencing \<open>{Text, Data, Global}\<close> and produces a string;
  a compile failure is reported to the caller as an error. A template is literal text
  with actions between \<open>{{\<close> and \<open>}}\<close>, and an action names one of the three fields.
  How a payload and the globals print is left to two parameters.
\<close>

datatype field = TextField | DataField | GlobalField

datatype segment = Literal string | Action field

text \<open>\<open>cut d s\<close> splits \<open>s\<close> at the first occurrence of the delimiter \<open>d\<close>.\<close>

fun cut :: "string \<Rightarrow> string \<Rightarrow> (string \<times> string) option" where
  "cut d [] = (if d = [] then Some ([], []) else None)"
| "cut d (c # cs) =
     (if take (length d) (c # cs) = d then Some ([], drop (length d) (c # cs))
      else map_option (\<lambda>(l, r). (c # l, r)) (cut d cs))"

definition trim :: "string \<Rightarrow> string" where
  "trim s = rev (dropWhile (\<lambda>c. c = CHR '' '') (rev (dropWhile (\<lambda>c. c = CHR '' '') s)))"

definition parse_action :: "string \<Rightarrow> string + field" where
  "parse_action a =
     (if a = ''.Text'' then Inr TextField
      else if a = ''.Data'' then Inr DataField
      else if a = ''.Global'' then Inr GlobalField
      else Inl (''unexpected action: '' @ a))"

lemma cut_length:
  "cut d s = Some (l, r) \<Longrightarrow> length l + length d + length r = length s"
proof (induction s arbitrary: l r)
  case Nil
  then show ?case by (simp split: if_splits)
next
  case (Cons c cs)
  show ?case
  proof (cases "take (length d) (c # cs) = d")
    case True
    then have "length (take (length d) (c # cs)) = length d"
      by simp
    then have "length d \<le> length (c # cs)"
      by (simp only: length_take)
    with True Cons.prems show ?thesis by auto
  next
    case False
    with Cons.prems obtain l' where "cut d cs = Some (l', r)" and "l = c # l'"
      by auto
    with Cons.IH show ?thesis by simp
  qed
qed

function parse_template :: "string \<Rightarrow> string + segment list" where
  "parse_template s =
     (case cut ''{{'' s of
        None \<Rightarrow> Inr (if s = [] then [] else [Literal s])
      | Some (lit, rest) \<Rightarrow>
          (case cut ''}}'' rest of
             None \<Rightarrow> Inl ''unclosed action''
           | Some (act, rest') \<Rightarrow>
               (case parse_action (trim act) of
                  Inl err \<Rightarrow> Inl err
                | Inr f \<Rightarrow>
                    (case parse_template rest' of
                       Inl err \<Rightarrow> Inl err
                     | Inr segs \<Rightarrow>
                         Inr ((if lit = [] then [] else [Literal lit]) @ Action f # segs)))))"
  by pat_completeness auto
termination
proof (relation "measure length")
  show "wf (measure length)" by simp
next
  fix s :: string and x2 lit rest x2a act rest' f
  assume "cut ''{{'' s = Some x2" and "(lit, rest) = x2"
    and "cut ''}}'' rest = Some x2a" and "(act, rest') = x2a"
  then have "length lit + 2 + length rest = length s"
    and "length act + 2 + length rest' = length rest"
    using cut_length [of "''{{''" s lit rest] cut_length [of "''}}''" rest act rest']
    by simp_all
  then show "(rest', s) \<in> measure length" by simp
qed

declare parse_template.simps [simp del]

definition eval_segment ::
  "('d \<Rightarrow> string) \<Rightarrow> (Globals \<Rightarrow> string) \<Rightarrow> 'd TemplateData \<Rightarrow> segment \<Rightarrow> string" where
  "eval_segment fmtData fmtGlobal d seg =
     (case seg of
        Literal s \<Rightarrow> s
      | Action TextField \<Rightarrow> TemplateData.Text d
      | Action DataField \<Rightarrow> fmtData (TemplateData.Data d)
      | Action GlobalField \<Rightarrow> fmtGlobal (Global d))"

definition specTemplates ::
  "('d \<Rightarrow> string) \<Rightarrow> (Globals \<Rightarrow> string) \<Rightarrow> (segment list, 'd) modtemplate" where
  "specTemplates fmtData fmtGlobal =
     \<lparr>CompileTemplate = (\<lambda>styles name src. parse_template src),
        TemplateToString =
          (\<lambda>tmpl d. (concat (map (eval_segment fmtData fmtGlobal d) tmpl), None))\<rparr>"

section \<open>Directory queries (package fileutils)\<close>

text \<open>
  Modelled from the spec: \<open>Directory.HasExtension\<close> of package fileutils, of which only
  the test is among the sources. The query is answered against the cached listing of the
  directory; it matches single (\<open>go\<close>) and compound (\<open>test.js\<close>) suffixes, case-sensitive,
  accepting the argument with or without a leading dot; a dotfile with no extension
  (\<open>.gitignore\<close>) matches no extension query. An extension of a name is what follows
  one of its dots, the dot that starts the name apart.
\<close>

record Directory =
  path :: string
  files :: "string list"

fun dot_suffixes :: "string \<Rightarrow> string list" where
  "dot_suffixes [] = []"
| "dot_suffixes (c # cs) = (if c = CHR ''.'' then cs # dot_suffixes cs else dot_suffixes cs)"

definition extensions :: "string \<Rightarrow> string list" where
  "extensions name = (case name of [] \<Rightarrow> [] | c # cs \<Rightarrow> dot_suffixes cs)"

definition HasExtension :: "Directory \<Rightarrow> string \<Rightarrow> bool" where
  "HasExtension directory extension =
     (let ext = (case extension of
                   [] \<Rightarrow> []
                 | c # cs \<Rightarrow> if c = CHR ''.'' then cs else extension)
      in list_ex (\<lambda>name. ext \<in> set (extensions name)) (files directory))"

text \<open>The directory that \<open>TestHasExtension\<close> builds with \<open>NewDirectoryTestFS\<close>.\<close>

definition TestHasExtension_dir :: Directory where
  "TestHasExtension_dir =
     \<lparr>path = ''/foo/bar'', files = [''foo.go'', ''foo.test.js'', ''.gitignore'', ''banana'']\<rparr>"

section \<open>A concrete context\<close>

text \<open>
  The globals and the environment of \<open>BenchmarkPrompt\<close> (a \<open>DummyEnv\<close> with \<open>USER\<close> and
  \<open>HOME\<close>), a registry that knows one style, and a template engine whose evaluation
  always fails, for the closed instances of the theorems below.
\<close>

definition exampleGlobals :: Globals where
  "exampleGlobals =
     \<lparr>CWD = ''/Users/jwalton'', Home = ''/Users/jwalton'', Username = ''jwalton'',
        UserFullName = ''Jason Walton'', Hostname = ''lucid'', Status = 0,
        PreviousCommandDuration = 0, Keymap = [], IsRoot = False\<rparr>"

definition exampleEnv :: Env where
  "exampleEnv =
     \<lparr>Getenv = (\<lambda>k. if k = ''USER'' then ''jwalton''
                      else if k = ''HOME'' then ''/Users/jwalton'' else []),
        HasSomeEnv = list_ex (\<lambda>k. k = ''USER'' \<or> k = ''HOME'')\<rparr>"

definition bold :: Style where
  "bold text =
     (''<b>'' @ text @ ''</b>'', \<lparr>FG = ''white'', BG = []\<rparr>, \<lparr>FG = ''white'', BG = []\<rparr>)"

definition exampleStyles :: Registry where
  "exampleStyles name =
     (if name = [] then (None, None)
      else if name = ''bold'' then (Some bold, None)
      else (None, Some (''unknown style: '' @ name)))"

definition exampleContext :: Context where
  "exampleContext =
     \<lparr>Environment = exampleEnv, Styles = exampleStyles, Globals = exampleGlobals\<rparr>"

definition failingTemplates :: "(string, 'd) modtemplate" where
  "failingTemplates =
     \<lparr>CompileTemplate = (\<lambda>styles name src. Inr src),
        TemplateToString = (\<lambda>tmpl d. ([], Some ''no such field''))\<rparr>"

section \<open>Properties\<close>

subsection \<open>The git status parser\<close>

lemma Write_iter_step:
  "i < length p \<Longrightarrow> Write_iter p i x status = Inr (Write_step (p ! i) (x, status))"
  by (simp add: Write_iter_def Write_step_def index_def)

lemma Write_loop_fold:
  "i \<le> length p \<Longrightarrow>
   Write_loop p i x status = Inr (snd (fold Write_step (drop i p) (x, status)))"
proof (induction p i x status rule: Write_loop.induct)
  case (1 p i x status)
  show ?case
  proof (cases "i < length p")
    case True
    obtain x' status' where st: "Write_step (p ! i) (x, status) = (x', status')"
      by (cases "Write_step (p ! i) (x, status)")
    have it: "Write_iter p i x status = Inr (x', status')"
      using True st by (simp add: Write_iter_step)
    have "Write_loop p (i + 1) x' status'
            = Inr (snd (fold Write_step (drop (i + 1) p) (x', status')))"
      using "1.IH" [OF True it refl] True by simp
    moreover have "drop i p = p ! i # drop (i + 1) p"
      using True by (simp add: Cons_nth_drop_Suc)
    ultimately show ?thesis
      using True it st by (subst Write_loop.simps) simp
  next
    case False
    with "1.prems" show ?thesis
      by (subst Write_loop.simps) simp
  qed
qed

lemma Write_fold:
  "Write status p = Inr (length p, None, snd (fold Write_step p (CHR 0x00, status)))"
  by (simp add: Write_def Write_loop_fold)

lemma of_nat_not_01:
  assumes "2 \<le> k" "k < 2 ^ 64"
  shows "(of_nat k :: go_int) \<noteq> 0" "(of_nat k :: go_int) \<noteq> 1"
proof -
  have u: "unat (of_nat k :: go_int) = k"
    using assms by (simp add: unat_of_nat)
  show "(of_nat k :: go_int) \<noteq> 0"
  proof
    assume "(of_nat k :: go_int) = 0"
    then have "unat (of_nat k :: go_int) = 0" by simp
    with u assms show False by simp
  qed
  show "(of_nat k :: go_int) \<noteq> 1"
  proof
    assume "(of_nat k :: go_int) = 1"
    then have "unat (of_nat k :: go_int) = 1" by simp
    with u assms show False by simp
  qed
qed

lemma skip_path:
  "linePos status = of_nat k \<Longrightarrow> 2 \<le> k \<Longrightarrow> k + length rest < 2 ^ 64 \<Longrightarrow>
   CHR 0x00 \<notin> set rest \<Longrightarrow>
   fold Write_step rest (x, status) = (x, status\<lparr>linePos := of_nat (k + length rest)\<rparr>)"
proof (induction rest arbitrary: k status)
  case Nil
  then show ?case by simp
next
  case (Cons b rest)
  have k: "k < 2 ^ 64" using Cons.prems by simp
  have b: "b \<noteq> CHR 0x00" using Cons.prems by auto
  have st: "Write_step b (x, status) = (x, status\<lparr>linePos := of_nat (Suc k)\<rparr>)"
    using Cons.prems(1) b of_nat_not_01 [OF Cons.prems(2) k]
    by (simp add: Write_step_def)
  have "fold Write_step rest (x, status\<lparr>linePos := of_nat (Suc k)\<rparr>)
          = (x, status\<lparr>linePos := of_nat (Suc k), linePos := of_nat (Suc k + length rest)\<rparr>)"
    by (rule Cons.IH) (use Cons.prems in auto)
  then show ?case using st by simp
qed

lemma one_record:
  assumes "linePos status = 0" "wf_record (x, y, rest)"
  shows "fold Write_step (encode_record (x, y, rest)) (x0, status)
           = (x, status\<lparr>stats := classify x y (stats status)\<rparr>)"
proof -
  let ?s2 = "status\<lparr>stats := classify x y (stats status), linePos := 2\<rparr>"
  have nz: "CHR 0x00 \<notin> set rest" and len: "2 + length rest < 2 ^ 64"
    using assms(2) by (simp_all add: wf_record_def)
  have a: "fold Write_step [x, y] (x0, status) = (x, ?s2)"
    using assms(1) by (simp add: Write_step_def)
  have b: "fold Write_step rest (x, ?s2) = (x, ?s2\<lparr>linePos := of_nat (2 + length rest)\<rparr>)"
    by (rule skip_path) (use nz len in simp_all)
  have c: "Write_step (CHR 0x00) (x, ?s2\<lparr>linePos := of_nat (2 + length rest)\<rparr>)
             = (x, status\<lparr>stats := classify x y (stats status)\<rparr>)"
    using of_nat_not_01 [of "2 + length rest"] len assms(1)
    by (simp add: Write_step_def)
  have "fold Write_step (encode_record (x, y, rest)) (x0, status)
          = Write_step (CHR 0x00) (fold Write_step rest (fold Write_step [x, y] (x0, status)))"
    by (simp add: encode_record_def)
  then show ?thesis using a b c by simp
qed

lemma count_record_simp: "count_record (x, y, rest) s = classify x y s"
  by (simp add: count_record_def)

lemma many_records:
  "linePos status = 0 \<Longrightarrow> \<forall>r \<in> set rs. wf_record r \<Longrightarrow>
   snd (fold Write_step (encode_records rs) (x0, status))
     = status\<lparr>stats := fold count_record rs (stats status)\<rparr>"
proof (induction rs arbitrary: x0 status)
  case Nil
  then show ?case by (simp add: encode_records_def)
next
  case (Cons r rs)
  obtain x y rest where r: "r = (x, y, rest)" by (cases r)
  have wf: "wf_record (x, y, rest)" using Cons.prems r by simp
  let ?s = "status\<lparr>stats := classify x y (stats status)\<rparr>"
  have "snd (fold Write_step (encode_records (r # rs)) (x0, status))
          = snd (fold Write_step (encode_records rs) (x, ?s))"
    using one_record [OF Cons.prems(1) wf] r by (simp add: encode_records_def)
  also have "\<dots> = ?s\<lparr>stats := fold count_record rs (stats ?s)\<rparr>"
    by (rule Cons.IH) (use Cons.prems in simp_all)
  finally show ?case using r by (simp add: count_record_simp)
qed

lemma fileTotal_countStats:
  "fileTotal (countStats f c) = fileTotal f + of_nat (letter_weight c)"
  by (simp add: fileTotal_def countStats_def letter_weight_def)

lemma total_classify:
  "total (classify x y s) = total s + of_nat (record_weight (x, y, rest))"
  by (simp add: total_def classify_def record_weight_def fileTotal_countStats)
     (simp add: fileTotal_def)

lemma total_fold_count_record:
  "total (fold count_record rs s) = total s + of_nat (sum_list (map record_weight rs))"
proof (induction rs arbitrary: s)
  case Nil
  then show ?case by simp
next
  case (Cons r rs)
  obtain x y rest where r: "r = (x, y, rest)" by (cases r)
  show ?case
    using Cons.IH [of "count_record r s"] r
    by (simp add: count_record_simp total_classify [of x y s rest])
qed

lemma record_weight_le: "record_weight r \<le> 2"
  by (cases r) (simp add: record_weight_def letter_weight_def)

lemma sum_weight_le: "sum_list (map record_weight rs) \<le> 2 * length rs"
proof (induction rs)
  case Nil
  then show ?case by simp
next
  case (Cons r rs)
  then show ?case using record_weight_le [of r] by simp
qed

lemma countStats_spec: "countStats f c = spec_count_letter c f"
  by (simp add: countStats_def spec_count_letter_def)

lemma classify_spec: "classify x y s = spec_classify x y s"
  by (simp add: classify_def spec_classify_def countStats_spec)

lemma newStatusWriter_simps:
  "linePos newStatusWriter = 0" "stats newStatusWriter = zeroStats"
  by (simp_all add: newStatusWriter_def)

text \<open>
  C1, as the code has it. For a stream of well-formed records (no NUL in a path, a record
  shorter than \<open>2^64\<close> bytes) written in one call to a fresh writer, \<open>Write\<close> returns
  to the start of a record with the counters that classifying the records one by one
  gives. A record increments \<open>Unmerged\<close> alone, or the worktree \<open>Added\<close> alone, or else
  at most one index counter (by its first letter) and at most one worktree counter (by
  its second): the sum of all counters is the number of increments so counted, at most
  two for a record.
\<close>

theorem status_counts_per_record:
  assumes "\<forall>r \<in> set rs. wf_record r"
  shows "Write newStatusWriter (encode_records rs)
           = Inr (length (encode_records rs), None,
                  \<lparr>linePos = 0, stats = fold count_record rs zeroStats\<rparr>)
         \<and> total (fold count_record rs zeroStats) = of_nat (sum_list (map record_weight rs))
         \<and> sum_list (map record_weight rs) \<le> 2 * length rs"
proof -
  have "snd (fold Write_step (encode_records rs) (CHR 0x00, newStatusWriter))
          = newStatusWriter\<lparr>stats := fold count_record rs (stats newStatusWriter)\<rparr>"
    by (rule many_records) (use assms in \<open>simp_all add: newStatusWriter_simps\<close>)
  then have "Write newStatusWriter (encode_records rs)
           = Inr (length (encode_records rs), None,
                  \<lparr>linePos = 0, stats = fold count_record rs zeroStats\<rparr>)"
    by (simp add: Write_fold newStatusWriter_def)
  moreover have "total zeroStats = 0"
    by (simp add: total_def zeroStats_def fileTotal_def zeroFileStats_def)
  ultimately show ?thesis
    by (simp add: total_fold_count_record sum_weight_le)
qed

lemma Write_step_unfold:
  "Write_step b (x, status) =
     (if linePos status = 0 then (b, status\<lparr>linePos := linePos status + 1\<rparr>)
        else if linePos status = 1
        then (x, status\<lparr>stats := classify x b (stats status), linePos := linePos status + 1\<rparr>)
        else if b = CHR 0x00 then (x, status\<lparr>linePos := 0\<rparr>)
        else (x, status\<lparr>linePos := linePos status + 1\<rparr>))"
  by (simp add: Write_step_def)

text \<open>
  C1 as stated fails: the one record \<open>MM a\<close>, a file modified in the index and again
  in the work tree, increments \<open>Index.Modified\<close> and \<open>Files.Modified\<close>, and the counters
  sum to two.
\<close>

theorem status_sum_counterexample:
  "wf_record (CHR ''M'', CHR ''M'', '' a'')
   \<and> Write newStatusWriter (encode_records [(CHR ''M'', CHR ''M'', '' a'')])
       = Inr (5, None,
              \<lparr>linePos = 0,
                 stats = \<lparr>Index = \<lparr>Added = 0, Modified = 1, Deleted = 0\<rparr>,
                          Files = \<lparr>Added = 0, Modified = 1, Deleted = 0\<rparr>,
                          Unmerged = 0\<rparr>\<rparr>)
   \<and> total \<lparr>Index = \<lparr>Added = 0, Modified = 1, Deleted = 0\<rparr>,
             Files = \<lparr>Added = 0, Modified = 1, Deleted = 0\<rparr>,
             Unmerged = 0\<rparr>
       \<noteq> of_nat (length [(CHR ''M'', CHR ''M'', '' a'')])"
  by (simp add: wf_record_def Write_fold encode_records_def encode_record_def Write_step_unfold
      newStatusWriter_def zeroStats_def zeroFileStats_def classify_def countStats_def
      total_def fileTotal_def)

theorem status_counts_per_record_witness:
  "wf_record (CHR ''M'', CHR ''M'', '' a'') \<and> wf_record (CHR ''?'', CHR ''?'', '' b'')
   \<and> Write newStatusWriter (''MM a'' @ [CHR 0x00] @ ''?? b'' @ [CHR 0x00])
       = Inr (10, None,
              \<lparr>linePos = 0,
                 stats = \<lparr>Index = \<lparr>Added = 0, Modified = 1, Deleted = 0\<rparr>,
                          Files = \<lparr>Added = 1, Modified = 1, Deleted = 0\<rparr>,
                          Unmerged = 0\<rparr>\<rparr>)
   \<and> total \<lparr>Index = \<lparr>Added = 0, Modified = 1, Deleted = 0\<rparr>,
             Files = \<lparr>Added = 1, Modified = 1, Deleted = 0\<rparr>,
             Unmerged = 0\<rparr> = 3"
  using status_counts_per_record
          [of "[(CHR ''M'', CHR ''M'', '' a''), (CHR ''?'', CHR ''?'', '' b'')]"]
  by (simp add: wf_record_def encode_records_def encode_record_def count_record_def
      zeroStats_def zeroFileStats_def classify_def countStats_def record_weight_def
      letter_weight_def)

text \<open>
  C2. A well-formed record with letters \<open>x\<close> and \<open>y\<close>, written at the start of a
  record, updates the counters by the rule of the specification: \<open>Unmerged\<close> for
  \<open>DD\<close>, \<open>AA\<close> or a \<open>U\<close>; otherwise the worktree \<open>Added\<close> for \<open>x = ?\<close>; otherwise
  \<open>x\<close> into the index counters and \<open>y\<close> into the worktree counters. The stream
  \<open>M  file1\0?? file2\0UU file3\0\<close> yields \<open>Index.Modified = 1\<close>, \<open>Files.Added = 1\<close>,
  \<open>Unmerged = 1\<close> and zero elsewhere.
\<close>

theorem status_classification:
  assumes "linePos status = 0" and "wf_record (x, y, rest)"
  shows "Write status (encode_record (x, y, rest))
           = Inr (length rest + 3, None,
                  status\<lparr>stats := spec_classify x y (stats status)\<rparr>)
         \<and> Write newStatusWriter
               (''M  file1'' @ [CHR 0x00] @ ''?? file2'' @ [CHR 0x00] @ ''UU file3'' @ [CHR 0x00])
             = Inr (27, None,
                    \<lparr>linePos = 0,
                       stats = \<lparr>Index = \<lparr>Added = 0, Modified = 1, Deleted = 0\<rparr>,
                                Files = \<lparr>Added = 1, Modified = 0, Deleted = 0\<rparr>,
                                Unmerged = 1\<rparr>\<rparr>)"
proof
  have "snd (fold Write_step (encode_record (x, y, rest)) (CHR 0x00, status))
          = status\<lparr>stats := classify x y (stats status)\<rparr>"
    using one_record [OF assms, of "CHR 0x00"] by simp
  moreover have "length (encode_record (x, y, rest)) = length rest + 3"
    by (simp add: encode_record_def)
  ultimately show "Write status (encode_record (x, y, rest))
           = Inr (length rest + 3, None,
                  status\<lparr>stats := spec_classify x y (stats status)\<rparr>)"
    by (simp add: Write_fold classify_spec)
next
  let ?rs = "[(CHR ''M'', CHR '' '', '' file1''), (CHR ''?'', CHR ''?'', '' file2''),
              (CHR ''U'', CHR ''U'', '' file3'')]"
  have wf: "\<forall>r \<in> set ?rs. wf_record r"
    by (simp add: wf_record_def)
  have "snd (fold Write_step (encode_records ?rs) (CHR 0x00, newStatusWriter))
          = newStatusWriter\<lparr>stats := fold count_record ?rs (stats newStatusWriter)\<rparr>"
    by (rule many_records [OF _ wf]) (simp add: newStatusWriter_simps)
  moreover have "encode_records ?rs
      = ''M  file1'' @ [CHR 0x00] @ ''?? file2'' @ [CHR 0x00] @ ''UU file3'' @ [CHR 0x00]"
    by (simp add: encode_records_def encode_record_def)
  moreover have "fold count_record ?rs zeroStats
      = \<lparr>Index = \<lparr>Added = 0, Modified = 1, Deleted = 0\<rparr>,
         Files = \<lparr>Added = 1, Modified = 0, Deleted = 0\<rparr>, Unmerged = 1\<rparr>"
    by (simp add: count_record_def classify_def countStats_def zeroStats_def zeroFileStats_def)
  ultimately show "Write newStatusWriter
               (''M  file1'' @ [CHR 0x00] @ ''?? file2'' @ [CHR 0x00] @ ''UU file3'' @ [CHR 0x00])
             = Inr (27, None,
                    \<lparr>linePos = 0,
                       stats = \<lparr>Index = \<lparr>Added = 0, Modified = 1, Deleted = 0\<rparr>,
                                Files = \<lparr>Added = 1, Modified = 0, Deleted = 0\<rparr>,
                                Unmerged = 1\<rparr>\<rparr>)"
    by (simp add: Write_fold newStatusWriter_def)
qed

theorem status_classification_witness:
  "linePos newStatusWriter = 0 \<and> wf_record (CHR ''R'', CHR ''D'', '' new'')
   \<and> Write newStatusWriter (''RD new'' @ [CHR 0x00])
       = Inr (7, None,
              \<lparr>linePos = 0,
                 stats = \<lparr>Index = \<lparr>Added = 0, Modified = 1, Deleted = 0\<rparr>,
                          Files = \<lparr>Added = 0, Modified = 0, Deleted = 1\<rparr>,
                          Unmerged = 0\<rparr>\<rparr>)"
  using status_classification [of newStatusWriter "CHR ''R''" "CHR ''D''" "'' new''"]
  by (simp add: wf_record_def encode_record_def newStatusWriter_def zeroStats_def
      zeroFileStats_def spec_classify_def spec_count_letter_def)

text \<open>
  C3 fails on the code. The first status letter is held in the local variable \<open>x\<close> of
  \<open>Write\<close>, which starts at the zero byte in every call: a chunk boundary between the
  two status letters loses it. Split after its first byte, the stream \<open>M  file1\0\<close>
  counts nothing; written whole, it counts one modified file in the index.
\<close>

theorem Write_split_after_first_letter:
  "Write_chunks newStatusWriter [''M'', ''  file1'' @ [CHR 0x00]]
     = Inr \<lparr>linePos = 0,
            stats = \<lparr>Index = \<lparr>Added = 0, Modified = 0, Deleted = 0\<rparr>,
                     Files = \<lparr>Added = 0, Modified = 0, Deleted = 0\<rparr>,
                     Unmerged = 0\<rparr>\<rparr>
   \<and> Write_chunks newStatusWriter [''M  file1'' @ [CHR 0x00]]
     = Inr \<lparr>linePos = 0,
            stats = \<lparr>Index = \<lparr>Added = 0, Modified = 1, Deleted = 0\<rparr>,
                     Files = \<lparr>Added = 0, Modified = 0, Deleted = 0\<rparr>,
                     Unmerged = 0\<rparr>\<rparr>"
  by (simp add: Write_fold Write_step_unfold newStatusWriter_def zeroStats_def zeroFileStats_def
      classify_def countStats_def)

text \<open>
  C9. For every byte slice and every writer, whatever its \<open>linePos\<close> and counters,
  \<open>Write\<close> reads no index out of range, and returns \<open>len(p)\<close> and a \<open>nil\<close> error.
\<close>

theorem Write_total:
  "(\<exists>status'. Write status p = Inr (length p, None, status'))
   \<and> (\<forall>e. Write status p \<noteq> Inl e)"
  by (simp add: Write_fold)

text \<open>
  Where no chunk boundary falls between the two status letters, two calls of \<open>Write\<close>
  do what one call does on the concatenation.
\<close>

lemma carried_step: "carried a b \<Longrightarrow> carried (Write_step c a) (Write_step c b)"
  by (cases a; cases b) (auto simp: carried_def Write_step_def)

lemma carried_fold: "carried a b \<Longrightarrow> carried (fold Write_step p a) (fold Write_step p b)"
  by (induction p arbitrary: a b) (simp_all add: carried_step)

lemma Write_two_chunks:
  assumes "Write status c1 = Inr (n, err, status')" and "linePos status' \<noteq> 1"
  shows "Write_chunks status [c1, c2] = Write_chunks status [c1 @ c2]"
proof -
  let ?a = "fold Write_step c1 (CHR 0x00, status)"
  have s': "status' = snd ?a"
    using assms(1) by (simp add: Write_fold)
  have "carried (CHR 0x00, status') ?a"
    using assms(2) s' by (simp add: carried_def)
  then have "carried (fold Write_step c2 (CHR 0x00, status')) (fold Write_step c2 ?a)"
    by (rule carried_fold)
  then have "snd (fold Write_step c2 (CHR 0x00, status')) = snd (fold Write_step (c1 @ c2) (CHR 0x00, status))"
    by (simp add: carried_def)
  then show ?thesis
    using s' by (simp add: Write_fold)
qed
subsection \<open>Executing a module\<close>

lemma executeModule_result:
  "result (executeModule mt ctx config data styleStr defaultText) =
     (case applyStyle (fst (resolveStyle ctx styleStr))
             (fst (renderTemplate mt ctx config data defaultText)) of
        (text, startStyle, endStyle) \<Rightarrow>
          \<lparr>Text = text, Data = data, StartStyle = startStyle, EndStyle = endStyle\<rparr>)"
  by (simp add: executeModule_def split: prod.splits)

lemma executeModule_effects:
  "warned (executeModule mt ctx config data styleStr defaultText) =
     snd (resolveStyle ctx styleStr)
       @ fst (snd (renderTemplate mt ctx config data defaultText))"
  "printed (executeModule mt ctx config data styleStr defaultText) =
     snd (snd (renderTemplate mt ctx config data defaultText))"
  "logged (executeModule mt ctx config data styleStr defaultText) = []"
  by (simp_all add: executeModule_def split: prod.splits)

lemma resolveStyle_error:
  "snd (Styles ctx styleStr) = Some err \<Longrightarrow> resolveStyle ctx styleStr = (None, [err])"
  by (cases "Styles ctx styleStr") (simp add: resolveStyle_def)

lemma renderTemplate_compile_error:
  "Template config \<noteq> [] \<Longrightarrow>
   CompileTemplate mt (Styles ctx) ''module-template'' (Template config) = Inl err \<Longrightarrow>
   renderTemplate mt ctx config data defaultText
     = (defaultText, [], [''Error compiling template: '' @ err])"
  by (simp add: renderTemplate_def)

lemma renderTemplate_eval_error:
  "Template config \<noteq> [] \<Longrightarrow>
   CompileTemplate mt (Styles ctx) ''module-template'' (Template config) = Inr tmpl \<Longrightarrow>
   snd (TemplateToString mt tmpl
          \<lparr>TemplateData.Text = defaultText, TemplateData.Data = data,
             Global = Globals ctx\<rparr>) = Some err \<Longrightarrow>
   renderTemplate mt ctx config data defaultText
     = (defaultText,
        [''Error executing template:'' @ [CHR 0x0A] @ Template config @ [CHR 0x0A] @ err],
        [])"
  by (cases "TemplateToString mt tmpl
          \<lparr>TemplateData.Text = defaultText, TemplateData.Data = data,
             Global = Globals ctx\<rparr>")
     (simp add: renderTemplate_def)

lemma renderTemplate_none:
  "Template config = [] \<Longrightarrow>
   renderTemplate mt ctx config data defaultText = (defaultText, [], [])"
  by (simp add: renderTemplate_def)

text \<open>
  C4, the compile failure. A template that fails to compile does not abort the module,
  and the text falls back to the default text with the resolved style applied; but
  nothing is passed to \<open>Environment.Warn\<close> for it: the error is written to standard
  output by \<open>fmt.Printf\<close>. An evaluation failure is warned of through the environment
  and prints nothing.
\<close>

theorem template_compile_error_is_printed:
  assumes "Template config \<noteq> []"
  shows "(CompileTemplate mt (Styles ctx) ''module-template'' (Template config) = Inl err \<longrightarrow>
          executeModule mt ctx config data styleStr defaultText
            = (case applyStyle (fst (resolveStyle ctx styleStr)) defaultText of
                 (text, startStyle, endStyle) \<Rightarrow>
                   \<lparr>result = \<lparr>Text = text, Data = data,
                                StartStyle = startStyle, EndStyle = endStyle\<rparr>,
                      warned = snd (resolveStyle ctx styleStr),
                      printed = [''Error compiling template: '' @ err],
                      logged = []\<rparr>))
       \<and> (CompileTemplate mt (Styles ctx) ''module-template'' (Template config) = Inr tmpl
          \<and> snd (TemplateToString mt tmpl
                   \<lparr>TemplateData.Text = defaultText, TemplateData.Data = data,
                      Global = Globals ctx\<rparr>) = Some err \<longrightarrow>
          executeModule mt ctx config data styleStr defaultText
            = (case applyStyle (fst (resolveStyle ctx styleStr)) defaultText of
                 (text, startStyle, endStyle) \<Rightarrow>
                   \<lparr>result = \<lparr>Text = text, Data = data,
                                StartStyle = startStyle, EndStyle = endStyle\<rparr>,
                      warned = snd (resolveStyle ctx styleStr)
                        @ [''Error executing template:'' @ [CHR 0x0A] @ Template config
                             @ [CHR 0x0A] @ err],
                      printed = [],
                      logged = []\<rparr>))"
proof (intro conjI impI)
  assume "CompileTemplate mt (Styles ctx) ''module-template'' (Template config) = Inl err"
  then have "renderTemplate mt ctx config data defaultText
     = (defaultText, [], [''Error compiling template: '' @ err])"
    using assms by (rule renderTemplate_compile_error [rotated])
  then show "executeModule mt ctx config data styleStr defaultText
            = (case applyStyle (fst (resolveStyle ctx styleStr)) defaultText of
                 (text, startStyle, endStyle) \<Rightarrow>
                   \<lparr>result = \<lparr>Text = text, Data = data,
                                StartStyle = startStyle, EndStyle = endStyle\<rparr>,
                      warned = snd (resolveStyle ctx styleStr),
                      printed = [''Error compiling template: '' @ err],
                      logged = []\<rparr>)"
    by (simp add: executeModule_def split: prod.splits)
next
  assume "CompileTemplate mt (Styles ctx) ''module-template'' (Template config) = Inr tmpl
          \<and> snd (TemplateToString mt tmpl
                   \<lparr>TemplateData.Text = defaultText, TemplateData.Data = data,
                      Global = Globals ctx\<rparr>) = Some err"
  then have c: "CompileTemplate mt (Styles ctx) ''module-template'' (Template config)
                  = Inr tmpl"
    and e: "snd (TemplateToString mt tmpl
                   \<lparr>TemplateData.Text = defaultText, TemplateData.Data = data,
                      Global = Globals ctx\<rparr>) = Some err"
    by simp_all
  have "renderTemplate mt ctx config data defaultText
     = (defaultText,
        [''Error executing template:'' @ [CHR 0x0A] @ Template config @ [CHR 0x0A] @ err],
        [])"
    by (rule renderTemplate_eval_error [OF assms c e])
  then show "executeModule mt ctx config data styleStr defaultText
            = (case applyStyle (fst (resolveStyle ctx styleStr)) defaultText of
                 (text, startStyle, endStyle) \<Rightarrow>
                   \<lparr>result = \<lparr>Text = text, Data = data,
                                StartStyle = startStyle, EndStyle = endStyle\<rparr>,
                      warned = snd (resolveStyle ctx styleStr)
                        @ [''Error executing template:'' @ [CHR 0x0A] @ Template config
                             @ [CHR 0x0A] @ err],
                      printed = [],
                      logged = []\<rparr>)"
    by (simp add: executeModule_def split: prod.splits)
qed

text \<open>
  C5. A style name that the registry cannot resolve does not abort the module: the
  error is passed to \<open>Environment.Warn\<close>, before any warning of the template, and the
  module goes on with no style, so its text is the rendered text undecorated and its
  boundary colours are unset.
\<close>

theorem style_resolution_failure_continues:
  assumes "snd (Styles ctx styleStr) = Some err"
  shows "executeModule mt ctx config data styleStr defaultText
           = (case renderTemplate mt ctx config data defaultText of
                (text, warned2, out) \<Rightarrow>
                  \<lparr>result = \<lparr>Text = text, Data = data,
                               StartStyle = unsetColors, EndStyle = unsetColors\<rparr>,
                     warned = err # warned2, printed = out, logged = []\<rparr>)"
  using resolveStyle_error [OF assms]
  by (simp add: executeModule_def applyStyle_def split: prod.splits)

text \<open>
  C7. With the style that was resolved and the text to render (the template's output,
  or the default text): where the text is empty or no style was resolved, no style is
  applied and both boundary colours are unset; where a style was resolved and the text
  is not empty, the result is what \<open>ApplyGetColors\<close> returns for that text.
\<close>

theorem style_applied_iff_resolved_and_nonempty:
  assumes "fst (resolveStyle ctx styleStr) = style"
    and "fst (renderTemplate mt ctx config data defaultText) = rendered"
  shows "(rendered = [] \<or> style = None \<longrightarrow>
            result (executeModule mt ctx config data styleStr defaultText)
              = \<lparr>Text = rendered, Data = data,
                   StartStyle = unsetColors, EndStyle = unsetColors\<rparr>)
       \<and> (\<forall>st. style = Some st \<and> rendered \<noteq> [] \<longrightarrow>
            result (executeModule mt ctx config data styleStr defaultText)
              = \<lparr>Text = fst (st rendered), Data = data,
                   StartStyle = fst (snd (st rendered)), EndStyle = snd (snd (st rendered))\<rparr>)"
  using assms
  by (auto simp add: executeModule_result applyStyle_def split: prod.splits option.splits)

lemma example_simps:
  "Styles exampleContext = exampleStyles"
  "Globals exampleContext = exampleGlobals"
  "Environment exampleContext = exampleEnv"
  "Globals.IsRoot exampleGlobals = False"
  "Getenv exampleEnv ''USER'' = ''jwalton''"
  "HasSomeEnv exampleEnv [''SSH_CLIENT'', ''SSH_CONNECTION'', ''SSH_TTY''] = False"
  "exampleStyles ''bold'' = (Some bold, None)"
  "exampleStyles ''blod'' = (None, Some ''unknown style: blod'')"
  "exampleStyles [] = (None, None)"
  by (simp_all add: exampleContext_def exampleGlobals_def exampleEnv_def exampleStyles_def)

lemma parse_unclosed: "parse_template ''{{'' = Inl ''unclosed action''"
  by (simp add: parse_template.simps)

lemma parse_text_action: "parse_template ''{{.Text}}'' = Inr [Action TextField]"
  by (simp add: parse_template.simps parse_action_def trim_def)

theorem template_compile_error_is_printed_witness:
  "Template \<lparr>Style = ''bold'', Template = ''{{''\<rparr> \<noteq> []
   \<and> executeModule (specTemplates (\<lambda>d. []) (\<lambda>g. [])) exampleContext
         \<lparr>Style = ''bold'', Template = ''{{''\<rparr> () ''bold'' ''jwalton''
       = \<lparr>result = \<lparr>Text = ''<b>jwalton</b>'', Data = (),
                    StartStyle = \<lparr>FG = ''white'', BG = []\<rparr>,
                    EndStyle = \<lparr>FG = ''white'', BG = []\<rparr>\<rparr>,
          warned = [],
          printed = [''Error compiling template: unclosed action''],
          logged = []\<rparr>
   \<and> executeModule failingTemplates exampleContext
         \<lparr>Style = ''bold'', Template = ''{{.Nope}}''\<rparr> () ''bold'' ''jwalton''
       = \<lparr>result = \<lparr>Text = ''<b>jwalton</b>'', Data = (),
                    StartStyle = \<lparr>FG = ''white'', BG = []\<rparr>,
                    EndStyle = \<lparr>FG = ''white'', BG = []\<rparr>\<rparr>,
          warned = [''Error executing template:'' @ [CHR 0x0A] @ ''{{.Nope}}''
                      @ [CHR 0x0A] @ ''no such field''],
          printed = [],
          logged = []\<rparr>"
  using template_compile_error_is_printed
          [where config = "\<lparr>Style = ''bold'', Template = ''{{''\<rparr>"
             and mt = "specTemplates (\<lambda>d. []) (\<lambda>g. [])" and ctx = exampleContext
             and err = "''unclosed action''" and data = "()" and styleStr = "''bold''"
             and defaultText = "''jwalton''"]
        template_compile_error_is_printed
          [where config = "\<lparr>Style = ''bold'', Template = ''{{.Nope}}''\<rparr>"
             and mt = failingTemplates and ctx = exampleContext
             and tmpl = "''{{.Nope}}''" and err = "''no such field''" and data = "()"
             and styleStr = "''bold''" and defaultText = "''jwalton''"]
  by (simp add: example_simps parse_unclosed specTemplates_def failingTemplates_def
      resolveStyle_def applyStyle_def bold_def)

theorem style_resolution_failure_continues_witness:
  "snd (Styles exampleContext ''blod'') = Some ''unknown style: blod''
   \<and> executeModule (specTemplates (\<lambda>d. []) (\<lambda>g. [])) exampleContext
         \<lparr>Style = ''blod'', Template = []\<rparr> () ''blod'' ''jwalton''
       = \<lparr>result = \<lparr>Text = ''jwalton'', Data = (),
                    StartStyle = unsetColors, EndStyle = unsetColors\<rparr>,
          warned = [''unknown style: blod''], printed = [], logged = []\<rparr>"
  using style_resolution_failure_continues
          [where ctx = exampleContext and styleStr = "''blod''"
             and err = "''unknown style: blod''"
             and mt = "specTemplates (\<lambda>d. []) (\<lambda>g. [])"
             and config = "\<lparr>Style = ''blod'', Template = []\<rparr>"
             and data = "()" and defaultText = "''jwalton''"]
  by (simp add: example_simps renderTemplate_none)

theorem style_applied_iff_resolved_and_nonempty_witness:
  "fst (resolveStyle exampleContext ''bold'') = Some bold
   \<and> fst (renderTemplate (specTemplates (\<lambda>d. []) (\<lambda>g. [])) exampleContext
            \<lparr>Style = ''bold'', Template = []\<rparr> () ''jwalton'') = ''jwalton''
   \<and> fst (renderTemplate (specTemplates (\<lambda>d. []) (\<lambda>g. [])) exampleContext
            \<lparr>Style = ''bold'', Template = []\<rparr> () []) = []
   \<and> result (executeModule (specTemplates (\<lambda>d. []) (\<lambda>g. [])) exampleContext
         \<lparr>Style = ''bold'', Template = []\<rparr> () ''bold'' ''jwalton'')
       = \<lparr>Text = ''<b>jwalton</b>'', Data = (),
          StartStyle = \<lparr>FG = ''white'', BG = []\<rparr>, EndStyle = \<lparr>FG = ''white'', BG = []\<rparr>\<rparr>
   \<and> result (executeModule (specTemplates (\<lambda>d. []) (\<lambda>g. [])) exampleContext
         \<lparr>Style = ''bold'', Template = []\<rparr> () ''bold'' [])
       = \<lparr>Text = [], Data = (), StartStyle = unsetColors, EndStyle = unsetColors\<rparr>"
  using style_applied_iff_resolved_and_nonempty
          [where ctx = exampleContext and styleStr = "''bold''" and style = "Some bold"
             and mt = "specTemplates (\<lambda>d. []) (\<lambda>g. [])"
             and config = "\<lparr>Style = ''bold'', Template = []\<rparr>" and data = "()"
             and defaultText = "''jwalton''" and rendered = "''jwalton''"]
        style_applied_iff_resolved_and_nonempty
          [where ctx = exampleContext and styleStr = "''bold''" and style = "Some bold"
             and mt = "specTemplates (\<lambda>d. []) (\<lambda>g. [])"
             and config = "\<lparr>Style = ''bold'', Template = []\<rparr>" and data = "()"
             and defaultText = "[]" and rendered = "[]"]
  by (simp add: example_simps renderTemplate_none resolveStyle_def bold_def)

subsection \<open>The username module\<close>

lemma Execute_inputs_style:
  "fst (snd (Execute_inputs current m ctx))
     = (if Globals.IsRoot (Globals ctx) \<and> RootStyle m \<noteq> [] then RootStyle m
        else Style (CommonConfig m))"
  by (simp add: Execute_inputs_def Let_def split: prod.splits)

lemma Execute_inputs_hidden:
  assumes "\<not> Globals.IsRoot (Globals ctx)"
    and "\<not> HasSomeEnv (Environment ctx) [''SSH_CLIENT'', ''SSH_CONNECTION'', ''SSH_TTY'']"
    and "\<not> ShowAlways m"
  shows "Execute_inputs current m ctx
           = (\<lparr>username = Getenv (Environment ctx) ''USER'',
                IsRoot = False, IsSSH = False, Show = False\<rparr>,
              Style (CommonConfig m), [], [])"
  using assms by (simp add: Execute_inputs_def Let_def)

text \<open>
  C10. For a user who is not root, outside an SSH session (none of \<open>SSH_CLIENT\<close>,
  \<open>SSH_CONNECTION\<close>, \<open>SSH_TTY\<close> is reported by the environment) and with \<open>ShowAlways\<close>
  false, \<open>Execute\<close> hands \<open>executeModule\<close> an empty default text and the configured
  style; with no template the resulting text is empty and the boundary colours are
  unset; the data carries the user name of the environment, with \<open>IsRoot\<close>, \<open>IsSSH\<close>
  and \<open>Show\<close> all false. For every module and context, the style handed over is
  \<open>RootStyle\<close> exactly when the user is root and \<open>RootStyle\<close> is not empty, and the
  configured \<open>Style\<close> otherwise.
\<close>

theorem username_hidden_by_default:
  assumes "\<not> Globals.IsRoot (Globals ctx)"
    and "\<not> HasSomeEnv (Environment ctx) [''SSH_CLIENT'', ''SSH_CONNECTION'', ''SSH_TTY'']"
    and "\<not> ShowAlways m"
  shows "Execute_inputs current m ctx
           = (\<lparr>username = Getenv (Environment ctx) ''USER'',
                IsRoot = False, IsSSH = False, Show = False\<rparr>,
              Style (CommonConfig m), [], [])
       \<and> (Template (CommonConfig m) = [] \<longrightarrow>
            result (Execute mt current m ctx)
              = \<lparr>Text = [],
                   Data = \<lparr>username = Getenv (Environment ctx) ''USER'',
                            IsRoot = False, IsSSH = False, Show = False\<rparr>,
                   StartStyle = unsetColors, EndStyle = unsetColors\<rparr>)
       \<and> Data (result (Execute mt current m ctx))
            = \<lparr>username = Getenv (Environment ctx) ''USER'',
                 IsRoot = False, IsSSH = False, Show = False\<rparr>
       \<and> fst (snd (Execute_inputs current' m' ctx'))
            = (if Globals.IsRoot (Globals ctx') \<and> RootStyle m' \<noteq> [] then RootStyle m'
               else Style (CommonConfig m'))"
proof (intro conjI impI)
  note inputs = Execute_inputs_hidden [OF assms, of current]
  show "Execute_inputs current m ctx
           = (\<lparr>username = Getenv (Environment ctx) ''USER'',
                IsRoot = False, IsSSH = False, Show = False\<rparr>,
              Style (CommonConfig m), [], [])"
    by (rule inputs)
  show "Data (result (Execute mt current m ctx))
            = \<lparr>username = Getenv (Environment ctx) ''USER'',
                 IsRoot = False, IsSSH = False, Show = False\<rparr>"
    by (simp add: Execute_def inputs executeModule_result split: prod.splits)
  show "fst (snd (Execute_inputs current' m' ctx'))
            = (if Globals.IsRoot (Globals ctx') \<and> RootStyle m' \<noteq> [] then RootStyle m'
               else Style (CommonConfig m'))"
    by (rule Execute_inputs_style)
  assume "Template (CommonConfig m) = []"
  then show "result (Execute mt current m ctx)
              = \<lparr>Text = [],
                   Data = \<lparr>username = Getenv (Environment ctx) ''USER'',
                            IsRoot = False, IsSSH = False, Show = False\<rparr>,
                   StartStyle = unsetColors, EndStyle = unsetColors\<rparr>"
    by (simp add: Execute_def inputs executeModule_result renderTemplate_none applyStyle_def
        split: option.splits)
qed

theorem username_hidden_by_default_witness:
  "\<not> Globals.IsRoot (Globals exampleContext)
   \<and> \<not> HasSomeEnv (Environment exampleContext) [''SSH_CLIENT'', ''SSH_CONNECTION'', ''SSH_TTY'']
   \<and> \<not> ShowAlways \<lparr>CommonConfig = \<lparr>Style = ''bold'', Template = []\<rparr>,
                      ShowAlways = False, RootStyle = ''red''\<rparr>
   \<and> result (Execute (specTemplates (\<lambda>d. []) (\<lambda>g. [])) (Inr ''jwalton'')
         \<lparr>CommonConfig = \<lparr>Style = ''bold'', Template = []\<rparr>,
            ShowAlways = False, RootStyle = ''red''\<rparr> exampleContext)
       = \<lparr>Text = [],
          Data = \<lparr>username = ''jwalton'', IsRoot = False, IsSSH = False, Show = False\<rparr>,
          StartStyle = unsetColors, EndStyle = unsetColors\<rparr>
   \<and> fst (snd (Execute_inputs (Inr ''root'')
         \<lparr>CommonConfig = \<lparr>Style = ''bold'', Template = []\<rparr>,
            ShowAlways = False, RootStyle = ''red''\<rparr>
         (exampleContext\<lparr>Globals := exampleGlobals\<lparr>Globals.IsRoot := True\<rparr>\<rparr>))) = ''red''"
  using username_hidden_by_default
          [where ctx = exampleContext
             and m = "\<lparr>CommonConfig = \<lparr>Style = ''bold'', Template = []\<rparr>,
                         ShowAlways = False, RootStyle = ''red''\<rparr>"
             and mt = "specTemplates (\<lambda>d. []) (\<lambda>g. [])" and current = "Inr ''jwalton''"
             and current' = "Inr ''root''"
             and m' = "\<lparr>CommonConfig = \<lparr>Style = ''bold'', Template = []\<rparr>,
                          ShowAlways = False, RootStyle = ''red''\<rparr>"
             and ctx' = "exampleContext\<lparr>Globals := exampleGlobals\<lparr>Globals.IsRoot := True\<rparr>\<rparr>"]
  by (simp add: example_simps)

subsection \<open>Templates\<close>

text \<open>
  C6. In the modelled renderer the template \<open>{{.Text}}\<close> compiles to the one action
  that reads \<open>Text\<close>, and evaluating it against \<open>{Text, Data, Global}\<close> returns the
  default text and no error, whatever the payload and the globals; so a module with
  that template and no resolved style returns its default text.
\<close>

theorem text_template_round_trip:
  "CompileTemplate (specTemplates fd fg) styles name ''{{.Text}}'' = Inr [Action TextField]
   \<and> TemplateToString (specTemplates fd fg) [Action TextField]
         \<lparr>TemplateData.Text = defaultText, TemplateData.Data = payload, Global = g\<rparr>
       = (defaultText, None)
   \<and> (Template config = ''{{.Text}}'' \<and> fst (resolveStyle ctx styleStr) = None \<longrightarrow>
        Text (result (executeModule (specTemplates fd fg) ctx config payload styleStr
                        defaultText)) = defaultText)"
proof (intro conjI impI)
  show c: "CompileTemplate (specTemplates fd fg) styles name ''{{.Text}}''
             = Inr [Action TextField]" for styles name
    by (simp add: specTemplates_def parse_text_action)
  show e: "TemplateToString (specTemplates fd fg) [Action TextField]
         \<lparr>TemplateData.Text = defaultText, TemplateData.Data = payload, Global = g\<rparr>
       = (defaultText, None)" for g
    by (simp add: specTemplates_def eval_segment_def)
  assume a: "Template config = ''{{.Text}}'' \<and> fst (resolveStyle ctx styleStr) = None"
  then have "renderTemplate (specTemplates fd fg) ctx config payload defaultText
               = (defaultText, [], [])"
    by (simp add: renderTemplate_def c e)
  then show "Text (result (executeModule (specTemplates fd fg) ctx config payload styleStr
                        defaultText)) = defaultText"
    using a by (simp add: executeModule_result applyStyle_def)
qed

theorem text_template_round_trip_witness:
  "Template \<lparr>Style = [], Template = ''{{.Text}}''\<rparr> = ''{{.Text}}''
   \<and> fst (resolveStyle exampleContext []) = None
   \<and> Text (result (executeModule (specTemplates (\<lambda>d. ''data'') (\<lambda>g. ''globals''))
                     exampleContext \<lparr>Style = [], Template = ''{{.Text}}''\<rparr> (7 :: nat) []
                     ''jwalton'')) = ''jwalton''"
  using text_template_round_trip
          [where config = "\<lparr>Style = [], Template = ''{{.Text}}''\<rparr>" and ctx = exampleContext
             and styleStr = "[]" and fd = "\<lambda>d :: nat. ''data''" and fg = "\<lambda>g. ''globals''"
             and payload = 7 and defaultText = "''jwalton''"]
  by (simp add: resolveStyle_def example_simps)

subsection \<open>Directory queries\<close>

lemma dot_suffixes_mem: "e \<in> set (dot_suffixes (a @ CHR ''.'' # e))"
  by (induction a) simp_all

lemma dot_suffixes_none: "CHR ''.'' \<notin> set s \<Longrightarrow> dot_suffixes s = []"
  by (induction s) auto

lemma extensions_mem: "base \<noteq> [] \<Longrightarrow> e \<in> set (extensions (base @ CHR ''.'' # e))"
  by (cases base) (simp_all add: extensions_def dot_suffixes_mem)

lemma extensions_mem_dot:
  assumes "base \<noteq> []"
  shows "t \<in> set (extensions (base @ CHR ''.'' # CHR ''.'' # t))"
proof -
  have "t \<in> set (extensions ((base @ ''.'') @ CHR ''.'' # t))"
    by (rule extensions_mem) simp
  then show ?thesis by simp
qed

lemma HasExtension_iff:
  "HasExtension d e
     = (\<exists>name \<in> set (files d).
          (case e of [] \<Rightarrow> [] | c # cs \<Rightarrow> if c = CHR ''.'' then cs else e)
            \<in> set (extensions name))"
  by (simp add: HasExtension_def list_ex_iff)

text \<open>
  C8. In the modelled query: a leading dot in the argument makes no difference; a file
  named \<open>base.e\<close>, with \<open>base\<close> not empty, answers the queries \<open>e\<close> and \<open>.e\<close>, whether
  \<open>e\<close> is single or compound; a directory holding only a dotfile with no further dot
  answers no query; and the directory of \<open>TestHasExtension\<close> gives the answers the
  test asserts, and none for \<open>GO\<close>.
\<close>

theorem HasExtension_suffixes:
  "(\<not> (\<exists>t. e = CHR ''.'' # t) \<longrightarrow> HasExtension d (CHR ''.'' # e) = HasExtension d e)
   \<and> (base \<noteq> [] \<and> base @ CHR ''.'' # e \<in> set (files d) \<longrightarrow>
        HasExtension d e \<and> HasExtension d (CHR ''.'' # e))
   \<and> (files d' = [CHR ''.'' # s] \<and> CHR ''.'' \<notin> set s \<longrightarrow> \<not> HasExtension d' ext)
   \<and> HasExtension TestHasExtension_dir ''go'' \<and> HasExtension TestHasExtension_dir ''.go''
   \<and> HasExtension TestHasExtension_dir ''js'' \<and> HasExtension TestHasExtension_dir ''.js''
   \<and> HasExtension TestHasExtension_dir ''test.js''
   \<and> HasExtension TestHasExtension_dir ''.test.js''
   \<and> \<not> HasExtension TestHasExtension_dir ''banana''
   \<and> \<not> HasExtension TestHasExtension_dir ''gitignore''
   \<and> \<not> HasExtension TestHasExtension_dir ''.gitignore''
   \<and> \<not> HasExtension TestHasExtension_dir ''txt''
   \<and> \<not> HasExtension TestHasExtension_dir ''.txt''
   \<and> \<not> HasExtension TestHasExtension_dir ''GO''"
proof -
  have dot: "\<not> (\<exists>t. e = CHR ''.'' # t) \<longrightarrow> HasExtension d (CHR ''.'' # e) = HasExtension d e"
    by (cases e) (auto simp add: HasExtension_def)
  have named: "base \<noteq> [] \<and> base @ CHR ''.'' # e \<in> set (files d) \<longrightarrow>
        HasExtension d e \<and> HasExtension d (CHR ''.'' # e)"
  proof (intro impI conjI)
    assume a: "base \<noteq> [] \<and> base @ CHR ''.'' # e \<in> set (files d)"
    then show "HasExtension d (CHR ''.'' # e)"
      using extensions_mem [of base e] by (auto simp add: HasExtension_iff)
    show "HasExtension d e"
    proof (cases "\<exists>t. e = CHR ''.'' # t")
      case True
      then obtain t where "e = CHR ''.'' # t" by blast
      then show ?thesis
        using a extensions_mem_dot [of base t] by (auto simp add: HasExtension_iff)
    next
      case False
      then show ?thesis
        using a extensions_mem [of base e]
        by (cases e) (auto simp add: HasExtension_iff)
    qed
  qed
  have dotfile: "files d' = [CHR ''.'' # s] \<and> CHR ''.'' \<notin> set s \<longrightarrow> \<not> HasExtension d' ext"
    by (simp add: HasExtension_iff extensions_def dot_suffixes_none)
  have test: "HasExtension TestHasExtension_dir ''go''" "HasExtension TestHasExtension_dir ''.go''"
    "HasExtension TestHasExtension_dir ''js''" "HasExtension TestHasExtension_dir ''.js''"
    "HasExtension TestHasExtension_dir ''test.js''"
    "HasExtension TestHasExtension_dir ''.test.js''"
    "\<not> HasExtension TestHasExtension_dir ''banana''"
    "\<not> HasExtension TestHasExtension_dir ''gitignore''"
    "\<not> HasExtension TestHasExtension_dir ''.gitignore''"
    "\<not> HasExtension TestHasExtension_dir ''txt''"
    "\<not> HasExtension TestHasExtension_dir ''.txt''"
    "\<not> HasExtension TestHasExtension_dir ''GO''"
    by (simp_all add: HasExtension_def TestHasExtension_dir_def extensions_def)
  from dot named dotfile test show ?thesis by blast
qed

theorem HasExtension_suffixes_witness:
  "\<not> (\<exists>t. ''test.js'' = CHR ''.'' # t)
   \<and> ''foo'' \<noteq> [] \<and> ''foo'' @ CHR ''.'' # ''test.js'' \<in> set (files TestHasExtension_dir)
   \<and> files \<lparr>path = ''/home'', files = [''.gitignore'']\<rparr> = [CHR ''.'' # ''gitignore'']
   \<and> CHR ''.'' \<notin> set ''gitignore''
   \<and> HasExtension TestHasExtension_dir ''.test.js'' = HasExtension TestHasExtension_dir ''test.js''
   \<and> HasExtension TestHasExtension_dir ''test.js''
   \<and> \<not> HasExtension \<lparr>path = ''/home'', files = [''.gitignore'']\<rparr> ''gitignore''"
  using HasExtension_suffixes
          [where e = "''test.js''" and d = TestHasExtension_dir and base = "''foo''"
             and d' = "\<lparr>path = ''/home'', files = [''.gitignore'']\<rparr>" and s = "''gitignore''"
             and ext = "''gitignore''"]
  by (simp add: TestHasExtension_dir_def)

end
